theory Spec2Isabelle
  imports Main "HOL-Library.Word"
begin

unbundle bit_operations_syntax

section \<open>Machine values and platform constants\<close>

text \<open>
  Pointers and native handles are machine words used only for equality tests against
  \<open>NULL\<close> and as keys of the store and of the handle table; they are natural numbers
  here, \<open>0\<close> being \<open>NULL\<close>. \<open>unsigned int\<close>, \<open>int\<close> flags and \<open>DWORD\<close> are 32-bit
  words.
\<close>

type_synonym addr = nat
type_synonym HANDLE = nat
type_synonym DWORD = "32 word"

abbreviation (input) NULL :: nat where "NULL \<equiv> 0"

datatype errno_code = EINVAL | EPERM | ENOMEM | ENOSPC | EEXIST | ENOENT | ETIMEDOUT

text \<open>Constants of the Windows SDK and of the C runtime's \<open>fcntl.h\<close>.\<close>

definition ERROR_FILE_NOT_FOUND :: DWORD where "ERROR_FILE_NOT_FOUND = 2"
definition ERROR_INVALID_HANDLE :: DWORD where "ERROR_INVALID_HANDLE = 6"
definition ERROR_INVALID_PARAMETER :: DWORD where "ERROR_INVALID_PARAMETER = 87"
definition ERROR_ALREADY_EXISTS :: DWORD where "ERROR_ALREADY_EXISTS = 183"
definition ERROR_SEM_NOT_FOUND :: DWORD where "ERROR_SEM_NOT_FOUND = 187"
definition ERROR_TOO_MANY_POSTS :: DWORD where "ERROR_TOO_MANY_POSTS = 298"
definition ERROR_NO_SYSTEM_RESOURCES :: DWORD where "ERROR_NO_SYSTEM_RESOURCES = 1450"

definition WAIT_OBJECT_0 :: DWORD where "WAIT_OBJECT_0 = 0"
definition WAIT_TIMEOUT :: DWORD where "WAIT_TIMEOUT = 258"
definition WAIT_FAILED :: DWORD where "WAIT_FAILED = 0xFFFFFFFF"
definition INFINITE :: DWORD where "INFINITE = 0xFFFFFFFF"

definition SEMAPHORE_MODIFY_STATE :: DWORD where "SEMAPHORE_MODIFY_STATE = 2"

definition O_CREAT :: "32 word" where "O_CREAT = 0x0100"
definition O_EXCL :: "32 word" where "O_EXCL = 0x0400"

text \<open>
  \<open>SEM_VALUE_MAX\<close> (semaphore.h) and \<open>PTHREAD_PROCESS_PRIVATE\<close> (pthread.h) are
  \<open>int\<close> constants of headers that are not part of \<open>sem.c\<close>; the functions that use
  them take them as a parameter.
\<close>

record header_consts =
  SEM_VALUE_MAX :: int
  PTHREAD_PROCESS_PRIVATE :: "32 word"

section \<open>The world: store, native semaphore objects, thread-local error state\<close>

text \<open>A native counting semaphore object of the kernel.\<close>

record ksem =
  k_count :: nat
  k_max :: nat
  k_refs :: nat
  k_name :: "string option"

text \<open>
  \<^item> \<open>mem\<close>: the allocated pointer-sized cells, the caller's \<open>sem_t\<close> slots and the
    \<open>arch_sem_t\<close> blocks of \<open>calloc\<close> alike, each holding a pointer or handle value;
  \<^item> \<open>brk\<close>, \<open>heap_avail\<close>: the allocator's last address and the blocks it can still
    hand out;
  \<^item> \<open>htab\<close>, \<open>hseq\<close>, \<open>handle_avail\<close>: the process handle table (handle to object
    id), the last handle value and the free slots;
  \<^item> \<open>objs\<close>, \<open>oseq\<close>, \<open>names\<close>: the kernel's semaphore objects and its name
    directory;
  \<^item> \<open>open_fault n = Some rc\<close>: the system refuses to open the name \<open>n\<close> (access
    check, a name held by an object of another type, ...) and reports \<open>rc\<close>;
  \<^item> \<open>last_error\<close>, \<open>errno\<close>: the calling thread's \<open>GetLastError\<close> and \<open>errno\<close>;
  \<^item> \<open>now\<close>: the clock, in milliseconds since the epoch.
  Only the calling thread acts: no other thread posts while it waits.
\<close>

record world =
  mem :: "addr \<rightharpoonup> nat"
  brk :: nat
  heap_avail :: nat
  htab :: "HANDLE \<rightharpoonup> nat"
  hseq :: nat
  handle_avail :: nat
  objs :: "nat \<rightharpoonup> ksem"
  oseq :: nat
  names :: "string \<rightharpoonup> nat"
  open_fault :: "string \<Rightarrow> DWORD option"
  last_error :: DWORD
  errno :: "errno_code option"
  now :: int

record timespec =
  tv_sec :: int
  tv_nsec :: int

text \<open>
  What a call does: it returns (a new world and a value), it never returns (a wait
  that nobody ends), or it has undefined behaviour (an access outside allocated
  memory).
\<close>

datatype 'a outcome = Returns "world \<times> 'a" | Blocks | Undefined

section \<open>The C runtime: allocation, strings, buffers\<close>

definition calloc :: "world \<Rightarrow> world \<times> addr" where
  "calloc w =
     (if heap_avail w = 0 then (w, NULL)
      else let p = brk w + 8 in
        (w\<lparr>mem := (mem w)(p \<mapsto> 0), brk := p, heap_avail := heap_avail w - 1\<rparr>, p))"

definition free :: "world \<Rightarrow> addr \<Rightarrow> world" where
  "free w p = w\<lparr>mem := (mem w)(p := None), heap_avail := Suc (heap_avail w)\<rparr>"

text \<open>
  A C string argument is given as the bytes it points to; it ends at the first NUL
  (or where the list ends).
\<close>

definition NUL :: char where "NUL = CHR 0x00"

definition cstr :: "string \<Rightarrow> string" where
  "cstr s = takeWhile (\<lambda>c. c \<noteq> NUL) s"

definition strlen :: "string \<Rightarrow> nat" where
  "strlen s = length (cstr s)"

text \<open>Writes into a fixed buffer; \<open>None\<close> is an access out of bounds.\<close>

definition memcpy :: "string \<Rightarrow> nat \<Rightarrow> string \<Rightarrow> nat \<Rightarrow> string option" where
  "memcpy dst off src n =
     (if off + n \<le> length dst \<and> n \<le> length src
      then Some (take off dst @ take n src @ drop (off + n) dst)
      else None)"

definition store_byte :: "string \<Rightarrow> int \<Rightarrow> char \<Rightarrow> string option" where
  "store_byte buf i c =
     (if 0 \<le> i \<and> i < int (length buf) then Some (buf[nat i := c]) else None)"

section \<open>The native synchronization primitive\<close>

definition new_handle :: "world \<Rightarrow> nat \<Rightarrow> world \<times> HANDLE" where
  "new_handle w oid =
     (let h = hseq w + 4 in
        (w\<lparr>htab := (htab w)(h \<mapsto> oid), hseq := h, handle_avail := handle_avail w - 1,
           objs := (case objs w oid of
                      None \<Rightarrow> objs w
                    | Some k \<Rightarrow> (objs w)(oid \<mapsto> k\<lparr>k_refs := Suc (k_refs k)\<rparr>))\<rparr>, h))"

text \<open>
  \<open>CreateSemaphore(NULL, lInitialCount, lMaximumCount, lpName)\<close>: the security
  attributes are always \<open>NULL\<close> in \<open>sem.c\<close> and left out. Creating under a name that
  exists opens the existing object.
\<close>

definition CreateSemaphore :: "world \<Rightarrow> int \<Rightarrow> int \<Rightarrow> string option \<Rightarrow> world \<times> HANDLE" where
  "CreateSemaphore w lInitialCount lMaximumCount lpName =
     (if lMaximumCount \<le> 0 \<or> lInitialCount < 0 \<or> lMaximumCount < lInitialCount
      then (w\<lparr>last_error := ERROR_INVALID_PARAMETER\<rparr>, NULL)
      else if handle_avail w = 0
      then (w\<lparr>last_error := ERROR_NO_SYSTEM_RESOURCES\<rparr>, NULL)
      else
        (case (case lpName of None \<Rightarrow> None | Some n \<Rightarrow> names w n) of
           Some oid \<Rightarrow> new_handle (w\<lparr>last_error := ERROR_ALREADY_EXISTS\<rparr>) oid
         | None \<Rightarrow>
             let oid = Suc (oseq w);
                 k = \<lparr>k_count = nat lInitialCount, k_max = nat lMaximumCount,
                      k_refs = 0, k_name = lpName\<rparr>
             in new_handle
                  (w\<lparr>objs := (objs w)(oid \<mapsto> k), oseq := oid,
                     names := (case lpName of None \<Rightarrow> names w
                               | Some n \<Rightarrow> (names w)(n \<mapsto> oid))\<rparr>) oid))"

definition OpenSemaphoreA :: "world \<Rightarrow> DWORD \<Rightarrow> bool \<Rightarrow> string \<Rightarrow> world \<times> HANDLE" where
  "OpenSemaphoreA w dwDesiredAccess bInheritHandle lpName =
     (case open_fault w lpName of
        Some rc \<Rightarrow> (w\<lparr>last_error := rc\<rparr>, NULL)
      | None \<Rightarrow>
          (case names w lpName of
             None \<Rightarrow> (w\<lparr>last_error := ERROR_FILE_NOT_FOUND\<rparr>, NULL)
           | Some oid \<Rightarrow>
               if handle_avail w = 0
               then (w\<lparr>last_error := ERROR_NO_SYSTEM_RESOURCES\<rparr>, NULL)
               else new_handle w oid))"

text \<open>The object goes away, with its name, when its last handle is closed.\<close>

definition CloseHandle :: "world \<Rightarrow> HANDLE \<Rightarrow> world \<times> nat" where
  "CloseHandle w h =
     (case htab w h of
        None \<Rightarrow> (w\<lparr>last_error := ERROR_INVALID_HANDLE\<rparr>, 0)
      | Some oid \<Rightarrow>
          let w1 = w\<lparr>htab := (htab w)(h := None), handle_avail := Suc (handle_avail w)\<rparr> in
          (case objs w oid of
             None \<Rightarrow> (w1, 1)
           | Some k \<Rightarrow>
               if k_refs k \<le> 1
               then (w1\<lparr>objs := (objs w)(oid := None),
                        names := (case k_name k of None \<Rightarrow> names w
                                  | Some n \<Rightarrow> (names w)(n := None))\<rparr>, 1)
               else (w1\<lparr>objs := (objs w)(oid \<mapsto> k\<lparr>k_refs := k_refs k - 1\<rparr>)\<rparr>, 1)))"

definition ReleaseSemaphore :: "world \<Rightarrow> HANDLE \<Rightarrow> nat \<Rightarrow> world \<times> nat" where
  "ReleaseSemaphore w h lReleaseCount =
     (case htab w h of
        None \<Rightarrow> (w\<lparr>last_error := ERROR_INVALID_HANDLE\<rparr>, 0)
      | Some oid \<Rightarrow>
          (case objs w oid of
             None \<Rightarrow> (w\<lparr>last_error := ERROR_INVALID_HANDLE\<rparr>, 0)
           | Some k \<Rightarrow>
               if lReleaseCount = 0 \<or> k_max k < k_count k + lReleaseCount
               then (w\<lparr>last_error := ERROR_TOO_MANY_POSTS\<rparr>, 0)
               else (w\<lparr>objs := (objs w)(oid \<mapsto> k\<lparr>k_count := k_count k + lReleaseCount\<rparr>)\<rparr>,
                     1)))"

text \<open>
  \<open>WaitForSingleObject\<close>: \<open>None\<close> when the wait never ends (count 0, \<open>INFINITE\<close>);
  a bounded wait on count 0 lets the clock run for its duration and times out.
\<close>

definition WaitForSingleObject :: "world \<Rightarrow> HANDLE \<Rightarrow> DWORD \<Rightarrow> (world \<times> DWORD) option" where
  "WaitForSingleObject w h dwMilliseconds =
     (case htab w h of
        None \<Rightarrow> Some (w\<lparr>last_error := ERROR_INVALID_HANDLE\<rparr>, WAIT_FAILED)
      | Some oid \<Rightarrow>
          (case objs w oid of
             None \<Rightarrow> Some (w\<lparr>last_error := ERROR_INVALID_HANDLE\<rparr>, WAIT_FAILED)
           | Some k \<Rightarrow>
               if 0 < k_count k
               then Some (w\<lparr>objs := (objs w)(oid \<mapsto> k\<lparr>k_count := k_count k - 1\<rparr>)\<rparr>,
                          WAIT_OBJECT_0)
               else if dwMilliseconds = INFINITE then None
               else Some (w\<lparr>now := now w + uint dwMilliseconds\<rparr>, WAIT_TIMEOUT)))"

definition GetLastError :: "world \<Rightarrow> DWORD" where
  "GetLastError w = last_error w"

section \<open>Collaborators of \<open>misc.h\<close> and \<open>arch_sem.h\<close>\<close>

text \<open>
  Modelled from the spec: \<open>set_errno\<close> (misc.h) is not part of \<open>sem.c\<close>. It
  ``records a POSIX-style error code for the calling thread and returns the
  operation's designated failure value (\<open>-1\<close> for status-returning operations)''.
\<close>

definition set_errno :: "world \<Rightarrow> errno_code \<Rightarrow> world \<times> int" where
  "set_errno w e = (w\<lparr>errno := Some e\<rparr>, - 1)"

text \<open>
  Modelled from the spec: the deadline argument of \<open>arch_rel_time_in_ms\<close> (misc.h, not
  part of \<open>sem.c\<close>) is ``an absolute deadline (seconds + nanoseconds since a fixed
  epoch)''; here it is taken in milliseconds since that epoch.
\<close>

definition deadline_ms :: "timespec \<Rightarrow> int" where
  "deadline_ms ts = tv_sec ts * 1000 + tv_nsec ts div 1000000"

text \<open>
  Modelled from the spec: \<open>arch_rel_time_in_ms\<close> (misc.h) is not part of \<open>sem.c\<close>. It
  ``converts an absolute deadline (seconds + nanoseconds since a fixed epoch) into a
  relative millisecond duration suitable for a bounded native wait, clamping negative
  results to zero'': duration = max(0, deadline - now).
\<close>

definition arch_rel_time_in_ms :: "world \<Rightarrow> timespec \<Rightarrow> DWORD" where
  "arch_rel_time_in_ms w abs_timeout = word_of_int (max 0 (deadline_ms abs_timeout - now w))"

text \<open>
  Modelled from the spec: \<open>arch_sem_t\<close> (arch_sem.h) is not part of \<open>sem.c\<close>. The
  handle storage has one attribute, the native object reference, so an \<open>arch_sem_t\<close>
  is one cell of the store and \<open>pv->handle\<close> is the cell at \<open>pv\<close>. A \<open>sem_t\<close> is a
  pointer, one cell as well (\<open>*sem = pv\<close>).
\<close>

definition load_handle :: "world \<Rightarrow> addr \<Rightarrow> HANDLE option" where
  "load_handle w pv = mem w pv"

definition store_handle :: "world \<Rightarrow> addr \<Rightarrow> HANDLE \<Rightarrow> world" where
  "store_handle w pv h = w\<lparr>mem := (mem w)(pv \<mapsto> h)\<rparr>"

section \<open>The functions of \<open>sem.c\<close>\<close>

definition sem_init :: "header_consts \<Rightarrow> world \<Rightarrow> addr \<Rightarrow> 32 word \<Rightarrow> 32 word \<Rightarrow> int outcome" where
  "sem_init c w sem pshared val =
     (if sem = NULL \<or> word_of_int (SEM_VALUE_MAX c) < val
      then Returns (set_errno w EINVAL)
      else if pshared \<noteq> PTHREAD_PROCESS_PRIVATE c
      then Returns (set_errno w EPERM)
      else
        (case calloc w of (w1, pv) \<Rightarrow>
           if pv = NULL then Returns (set_errno w1 ENOMEM)
           else
             (case CreateSemaphore w1 (sint val) (SEM_VALUE_MAX c) None of (w2, h) \<Rightarrow>
                let w3 = store_handle w2 pv h in
                if h = NULL then Returns (set_errno (free w3 pv) ENOSPC)
                else if mem w3 sem = None then Undefined
                else Returns (w3\<lparr>mem := (mem w3)(sem \<mapsto> pv)\<rparr>, 0))))"

definition sem_post :: "world \<Rightarrow> addr \<Rightarrow> int outcome" where
  "sem_post w sem =
     (let pv = sem in
      if sem = NULL \<or> pv = NULL then Returns (set_errno w EINVAL)
      else
        (case load_handle w pv of
           None \<Rightarrow> Undefined
         | Some h \<Rightarrow>
             (case ReleaseSemaphore w h 1 of (w1, ok) \<Rightarrow>
                if ok = 0 then Returns (set_errno w1 EINVAL)
                else Returns (w1, 0))))"

definition sem_wait :: "world \<Rightarrow> addr \<Rightarrow> int outcome" where
  "sem_wait w sem =
     (let pv = sem in
      if sem = NULL \<or> pv = NULL then Returns (set_errno w EINVAL)
      else
        (case load_handle w pv of
           None \<Rightarrow> Undefined
         | Some h \<Rightarrow>
             (case WaitForSingleObject w h INFINITE of
                None \<Rightarrow> Blocks
              | Some (w1, rc) \<Rightarrow>
                  if rc \<noteq> WAIT_OBJECT_0 then Returns (set_errno w1 EPERM)
                  else Returns (w1, 0))))"

definition sem_trywait :: "world \<Rightarrow> addr \<Rightarrow> int outcome" where
  "sem_trywait w sem =
     (let pv = sem in
      if sem = NULL \<or> pv = NULL then Returns (set_errno w EINVAL)
      else
        (case load_handle w pv of
           None \<Rightarrow> Undefined
         | Some h \<Rightarrow>
             (case WaitForSingleObject w h 0 of
                None \<Rightarrow> Blocks
              | Some (w1, rc) \<Rightarrow>
                  if rc = WAIT_OBJECT_0 then Returns (w1, 0)
                  else if rc = WAIT_TIMEOUT then Returns (set_errno w1 ETIMEDOUT)
                  else Returns (set_errno w1 EPERM))))"

definition sem_timedwait :: "world \<Rightarrow> addr \<Rightarrow> timespec \<Rightarrow> int outcome" where
  "sem_timedwait w sem abs_timeout =
     (let pv = sem in
      if sem = NULL \<or> pv = NULL then Returns (set_errno w EINVAL)
      else
        (case load_handle w pv of
           None \<Rightarrow> Undefined
         | Some h \<Rightarrow>
             (case WaitForSingleObject w h (arch_rel_time_in_ms w abs_timeout) of
                None \<Rightarrow> Blocks
              | Some (w1, rc) \<Rightarrow>
                  if rc = WAIT_OBJECT_0 then Returns (w1, 0)
                  else if rc = WAIT_TIMEOUT then Returns (set_errno w1 ETIMEDOUT)
                  else Returns (set_errno w1 EPERM))))"

text \<open>
  The three writes into \<open>char buffer[512]\<close> of \<open>sem_open\<close> (lines 145 to 147); the
  buffer starts with indeterminate content, here \<open>junk\<close>.
\<close>

definition global_prefix :: string where
  "global_prefix = ''Global'' @ [CHR 0x5C]"

definition fill_buffer :: "string \<Rightarrow> string \<Rightarrow> int \<Rightarrow> string option" where
  "fill_buffer junk name len =
     (case memcpy junk 0 (global_prefix @ [NUL]) 7 of
        None \<Rightarrow> None
      | Some b1 \<Rightarrow>
          (case memcpy b1 7 name (nat len) of
             None \<Rightarrow> None
           | Some b2 \<Rightarrow> store_byte b2 (len + 7) NUL))"

definition buffer_junk :: string where
  "buffer_junk = replicate 512 (CHR 0xCC)"

definition sem_open ::
  "header_consts \<Rightarrow> world \<Rightarrow> string \<Rightarrow> 32 word \<Rightarrow> 32 word \<Rightarrow> 32 word \<Rightarrow> addr outcome" where
  "sem_open c w name oflag mode val =
     (let len = sint (word_of_nat (strlen name) :: 32 word) in
      if word_of_int (SEM_VALUE_MAX c) < val \<or> 512 - 8 < len \<or> len < 1
      then Returns (fst (set_errno w EINVAL), NULL)
      else
        (case calloc w of (w1, pv) \<Rightarrow>
           if pv = NULL then Returns (fst (set_errno w1 ENOMEM), NULL)
           else
             (case fill_buffer buffer_junk name len of
                None \<Rightarrow> Undefined
              | Some buffer \<Rightarrow>
                  (case OpenSemaphoreA w1 SEMAPHORE_MODIFY_STATE False (cstr buffer) of
                     (w2, h) \<Rightarrow>
                       let w3 = store_handle w2 pv h in
                       if h \<noteq> NULL then
                         (if oflag AND O_CREAT \<noteq> 0 \<and> oflag AND O_EXCL \<noteq> 0
                          then Returns
                                 (fst (set_errno (free (fst (CloseHandle w3 h)) pv) EEXIST), NULL)
                          else Returns (w3, pv))
                       else
                         let rc = GetLastError w3 in
                         if rc \<noteq> ERROR_SEM_NOT_FOUND \<and> rc \<noteq> ERROR_FILE_NOT_FOUND
                         then Returns (fst (set_errno (free w3 pv) EPERM), NULL)
                         else if oflag AND O_CREAT = 0
                         then Returns (fst (set_errno (free w3 pv) ENOENT), NULL)
                         else
                           (case CreateSemaphore w3 (sint val) (SEM_VALUE_MAX c)
                                   (Some (cstr buffer)) of
                              (w4, h') \<Rightarrow>
                                let w5 = store_handle w4 pv h' in
                                if h' = NULL
                                then Returns (fst (set_errno (free w5 pv) ENOSPC), NULL)
                                else Returns (w5, pv))))))"

definition sem_unlink :: "world \<Rightarrow> string \<Rightarrow> int outcome" where
  "sem_unlink w name = Returns (w, 0)"

section \<open>Notions used by the properties\<close>

text \<open>The name under which the kernel knows the semaphore that \<open>sem_open\<close> calls \<open>name\<close>.\<close>

definition native_name :: "string \<Rightarrow> string" where
  "native_name name = global_prefix @ cstr name"

text \<open>A call that returns the value \<open>v\<close> and leaves \<open>e\<close> in \<open>errno\<close>.\<close>

definition returns_errno :: "'a outcome \<Rightarrow> 'a \<Rightarrow> errno_code \<Rightarrow> bool" where
  "returns_errno r v e =
     (case r of Returns (w', x) \<Rightarrow> x = v \<and> errno w' = Some e | Blocks \<Rightarrow> False
      | Undefined \<Rightarrow> False)"

text \<open>
  Example values: the header constants with \<open>SEM_VALUE_MAX = INT_MAX\<close>; a world with
  one caller slot at address 16, an empty heap that continues at 4096 and no native
  object; the same world after a semaphore named \<open>s\<close> with count 0 was created and is
  held through the block at 4096.
\<close>

definition hc0 :: header_consts where
  "hc0 = \<lparr>SEM_VALUE_MAX = 2147483647, PTHREAD_PROCESS_PRIVATE = 0\<rparr>"

definition w_fresh :: world where
  "w_fresh = \<lparr>mem = [16 \<mapsto> 0], brk = 4088, heap_avail = 8,
     htab = Map.empty, hseq = 0, handle_avail = 8,
     objs = Map.empty, oseq = 0, names = Map.empty,
     open_fault = (\<lambda>_. None), last_error = 0, errno = None, now = 1000\<rparr>"

definition w_named :: world where
  "w_named = \<lparr>mem = [16 \<mapsto> 0, 4096 \<mapsto> 4], brk = 4096, heap_avail = 7,
     htab = [4 \<mapsto> 1], hseq = 4, handle_avail = 7,
     objs = [1 \<mapsto> \<lparr>k_count = 0, k_max = 2147483647, k_refs = 1,
                     k_name = Some (native_name ''s'')\<rparr>],
     oseq = 1, names = [native_name ''s'' \<mapsto> 1],
     open_fault = (\<lambda>_. None), last_error = 2, errno = None, now = 1000\<rparr>"

section \<open>Auxiliary facts\<close>

lemmas platform_defs =
  ERROR_FILE_NOT_FOUND_def ERROR_INVALID_HANDLE_def ERROR_INVALID_PARAMETER_def
  ERROR_ALREADY_EXISTS_def ERROR_SEM_NOT_FOUND_def ERROR_TOO_MANY_POSTS_def
  ERROR_NO_SYSTEM_RESOURCES_def WAIT_OBJECT_0_def WAIT_TIMEOUT_def WAIT_FAILED_def
  INFINITE_def SEMAPHORE_MODIFY_STATE_def O_CREAT_def O_EXCL_def

lemma value_guard:
  assumes "0 \<le> m" "m < 2 ^ 32"
  shows "(word_of_int m < (v :: 32 word)) = (m < uint v)"
proof -
  from assms have "uint (word_of_int m :: 32 word) = m"
    by (simp add: uint_word_of_int)
  then show ?thesis
    by (simp add: word_less_def)
qed

lemma len_guard:
  assumes "n < 2 ^ 31"
  shows "sint (word_of_nat n :: 32 word) = int n"
  using assms
  by (simp add: signed_of_nat signed_take_bit_int_eq_self)

lemma cstr_no_NUL: "NUL \<notin> set (cstr s)"
  by (auto simp: cstr_def dest: set_takeWhileD)

lemma take_strlen: "take (strlen s) s = cstr s"
  by (simp add: strlen_def cstr_def takeWhile_eq_take [symmetric])

lemma strlen_le_length: "strlen s \<le> length s"
  by (simp add: strlen_def cstr_def length_takeWhile_le)

lemma length_cstr: "length (cstr s) = strlen s"
  by (simp add: strlen_def)

lemma cstr_terminated: "NUL \<notin> set xs \<Longrightarrow> cstr (xs @ NUL # ys) = xs"
  by (induction xs) (auto simp: cstr_def)

lemma length_global_prefix: "length global_prefix = 7"
  by (simp add: global_prefix_def)

lemma NUL_notin_global_prefix: "NUL \<notin> set global_prefix"
  by (simp add: global_prefix_def NUL_def)

lemma NUL_notin_native_name: "NUL \<notin> set (native_name name)"
  by (simp add: native_name_def NUL_notin_global_prefix cstr_no_NUL)

lemma length_native_name: "length (native_name name) = 7 + strlen name"
  by (simp add: native_name_def length_global_prefix length_cstr)

lemma fill_buffer_accepted:
  assumes "length junk = 512" and "1 \<le> strlen name" and "strlen name \<le> 504"
  shows "fill_buffer junk name (int (strlen name)) =
           Some (native_name name @ NUL # drop (strlen name + 8) junk)"
proof -
  let ?n = "strlen name"
  have b1: "memcpy junk 0 (global_prefix @ [NUL]) 7 = Some (global_prefix @ drop 7 junk)"
    using assms by (simp add: memcpy_def length_global_prefix)
  have b2: "memcpy (global_prefix @ drop 7 junk) 7 name ?n =
              Some (global_prefix @ cstr name @ drop (?n + 7) junk)"
    using assms strlen_le_length [of name]
    by (simp add: memcpy_def length_global_prefix take_strlen add.commute)
  have "(global_prefix @ cstr name @ drop (?n + 7) junk)[?n + 7 := NUL] =
          global_prefix @ cstr name @ (drop (?n + 7) junk)[0 := NUL]"
    by (simp add: list_update_append length_global_prefix length_cstr)
  moreover have "(drop (?n + 7) junk)[0 := NUL] = NUL # drop (?n + 8) junk"
  proof -
    have "?n + 7 < length junk" using assms by simp
    then have "drop (?n + 7) junk = junk ! (?n + 7) # drop (Suc (?n + 7)) junk"
      by (rule Cons_nth_drop_Suc [symmetric])
    then show ?thesis by (simp add: add.commute)
  qed
  ultimately have b3: "store_byte (global_prefix @ cstr name @ drop (?n + 7) junk) (int ?n + 7) NUL =
      Some (global_prefix @ cstr name @ NUL # drop (?n + 8) junk)"
    using assms by (simp add: store_byte_def length_global_prefix length_cstr nat_add_distrib)
  show ?thesis
    by (simp add: fill_buffer_def b1 b2 b3 native_name_def)
qed

lemma fill_buffer_cstr:
  assumes "length junk = 512" and "1 \<le> strlen name" and "strlen name \<le> 504"
  shows "\<exists>b. fill_buffer junk name (int (strlen name)) = Some b \<and> length b = 512 \<and>
             cstr b = native_name name"
  using assms
  by (simp add: fill_buffer_accepted cstr_terminated NUL_notin_native_name
      length_native_name)

lemma buffer_junk_length: "length buffer_junk = 512"
  by (simp add: buffer_junk_def)

lemma sem_open_buffer:
  assumes "1 \<le> strlen name" and "strlen name \<le> 504"
  shows "sint (word_of_nat (strlen name) :: 32 word) = int (strlen name)"
    and "fill_buffer buffer_junk name (int (strlen name)) =
           Some (native_name name @ NUL # drop (strlen name + 8) buffer_junk)"
    and "cstr (native_name name @ NUL # drop (strlen name + 8) buffer_junk) = native_name name"
  using assms
  by (simp_all add: len_guard fill_buffer_accepted buffer_junk_length cstr_terminated
      NUL_notin_native_name)

lemma value_accepted:
  assumes "0 \<le> SEM_VALUE_MAX c" and "SEM_VALUE_MAX c < 2 ^ 31" and "uint v \<le> SEM_VALUE_MAX c"
  shows "\<not> word_of_int (SEM_VALUE_MAX c) < (v :: 32 word)"
  using assms by (simp add: value_guard)

lemma returns_errno_simps [simp]:
  "returns_errno (Returns (w', x)) v e = (x = v \<and> errno w' = Some e)"
  "returns_errno Blocks v e = False"
  "returns_errno Undefined v e = False"
  by (simp_all add: returns_errno_def)

lemma len_negative:
  assumes "2 ^ 31 \<le> n" and "n < 2 ^ 32"
  shows "sint (word_of_nat n :: 32 word) < 0"
proof -
  have "(2 :: int) ^ 31 \<le> int n"
    using assms(1) by (metis of_nat_le_iff of_nat_numeral of_nat_power)
  then have a: "signed_take_bit 31 (int n) \<le> int n - 2 ^ Suc 31"
    by (rule signed_take_bit_int_less_eq)
  have b: "int n < 2 ^ 32"
    using assms(2) by (metis of_nat_less_iff of_nat_numeral of_nat_power)
  have c: "sint (word_of_nat n :: 32 word) = signed_take_bit 31 (int n)"
    by (simp only: signed_of_nat) simp
  have d: "(2 :: int) ^ Suc 31 = 2 ^ 32"
    by simp
  from a b show ?thesis
    unfolding c d by linarith
qed

lemma len_truncated:
  assumes "0 \<le> sint (word_of_nat n :: 32 word)"
  shows "nat (sint (word_of_nat n :: 32 word)) \<le> n"
proof -
  let ?w = "word_of_nat n :: 32 word"
  have "sint ?w < 2 ^ 32"
    using sint_lt [of ?w] by simp
  with assms have "take_bit 32 (sint ?w) = sint ?w"
    by (intro take_bit_int_eq_self)
  then have "sint ?w = uint ?w"
    using uint_sint [of ?w] by simp
  moreover have "uint ?w = int (n mod 2 ^ 32)"
    by (simp add: unsigned_of_nat take_bit_eq_mod)
  moreover have "n mod 2 ^ 32 \<le> n"
    by simp
  ultimately show ?thesis
    by simp
qed

lemma fill_buffer_in_bounds:
  assumes "length junk = 512" and "1 \<le> k" and "k \<le> 504" and "nat k \<le> length name"
  shows "fill_buffer junk name k \<noteq> None"
  using assms
  by (auto simp add: fill_buffer_def memcpy_def store_byte_def global_prefix_def)

lemma sem_open_defined: "sem_open c w name oflag mode val \<noteq> Undefined"
proof -
  let ?len = "sint (word_of_nat (strlen name) :: 32 word)"
  show ?thesis
  proof (cases "1 \<le> ?len \<and> ?len \<le> 504")
    case True
    then have "nat ?len \<le> strlen name"
      by (intro len_truncated) simp
    then have "nat ?len \<le> length name"
      using strlen_le_length [of name] by simp
    with True have "fill_buffer buffer_junk name ?len \<noteq> None"
      by (intro fill_buffer_in_bounds) (simp_all add: buffer_junk_length)
    then show ?thesis
      by (auto simp add: sem_open_def Let_def split: prod.splits option.splits)
  next
    case False
    then have "504 < ?len \<or> ?len < 1"
      by linarith
    then show ?thesis
      by (auto simp add: sem_open_def Let_def)
  qed
qed

lemma errno_set_errno [simp]: "errno (fst (set_errno w e)) = Some e"
  by (simp add: set_errno_def)

lemma calloc_result: "snd (calloc w) = NULL \<or> snd (calloc w) = brk w + 8"
  by (simp add: calloc_def Let_def)

lemma sint_value:
  assumes "SEM_VALUE_MAX c < 2 ^ 31" and "uint val \<le> SEM_VALUE_MAX c"
  shows "sint (val :: 32 word) = uint val"
proof -
  have "uint val < 2 ^ 31"
    using assms by simp
  moreover have "- (2 ^ 31) \<le> uint val"
  proof -
    have "- (2 ^ 31) \<le> (0 :: int)" by simp
    also have "0 \<le> uint val" by simp
    finally show ?thesis .
  qed
  ultimately have "signed_take_bit 31 (uint val) = uint val"
    by (intro signed_take_bit_int_eq_self)
  then show ?thesis
    by (simp add: sint_uint)
qed

lemma past_deadline:
  assumes "deadline_ms ts \<le> now w"
  shows "arch_rel_time_in_ms w ts = 0"
  using assms by (simp add: arch_rel_time_in_ms_def max_def)

lemma WaitForSingleObject_poll: "WaitForSingleObject w h 0 \<noteq> None"
  by (simp add: WaitForSingleObject_def INFINITE_def split: option.splits)

lemma OpenSemaphoreA_fails:
  assumes "OpenSemaphoreA w a i n = (wn, NULL)"
  shows "wn = w\<lparr>last_error := last_error wn\<rparr>"
  using assms
  by (auto simp add: OpenSemaphoreA_def new_handle_def Let_def split: option.splits if_splits)

lemma OpenSemaphoreA_calloc:
  "OpenSemaphoreA (w\<lparr>mem := m, brk := b, heap_avail := a\<rparr>) acc inh n =
     (case OpenSemaphoreA w acc inh n of
        (w', h) \<Rightarrow> (w'\<lparr>mem := m, brk := b, heap_avail := a\<rparr>, h))"
  by (simp add: OpenSemaphoreA_def new_handle_def Let_def split: option.splits)

text \<open>Facts about the example values.\<close>

lemma strlen_s: "strlen ''s'' = 1"
  by (simp add: strlen_def cstr_def NUL_def)

lemma hc0_simps: "SEM_VALUE_MAX hc0 = 2147483647" "PTHREAD_PROCESS_PRIVATE hc0 = 0"
  by (simp_all add: hc0_def)

lemma sem_open_buffer_s:
  "sint (word_of_nat (strlen ''s'') :: 32 word) = 1"
  "fill_buffer buffer_junk ''s'' 1 = Some (native_name ''s'' @ NUL # drop 9 buffer_junk)"
  "cstr (native_name ''s'' @ NUL # drop 9 buffer_junk) = native_name ''s''"
  using sem_open_buffer [of "''s''"] by (simp_all add: strlen_s)

lemma sem_open_fresh_create:
  "sem_open hc0 w_fresh ''s'' (O_CREAT OR O_EXCL) 0 0 = Returns (w_named, 4096)"
  by (simp add: sem_open_def sem_open_buffer_s hc0_simps w_fresh_def w_named_def
      calloc_def OpenSemaphoreA_def CreateSemaphore_def new_handle_def GetLastError_def
      store_handle_def Let_def platform_defs)

lemma w_fresh_simps:
  "mem w_fresh = [16 \<mapsto> 0]" "brk w_fresh = 4088" "heap_avail w_fresh = 8"
  "htab w_fresh = Map.empty" "hseq w_fresh = 0" "handle_avail w_fresh = 8"
  "objs w_fresh = Map.empty" "oseq w_fresh = 0" "names w_fresh = Map.empty"
  "open_fault w_fresh = (\<lambda>_. None)" "now w_fresh = 1000"
  by (simp_all add: w_fresh_def)

lemma w_named_simps:
  "mem w_named = [16 \<mapsto> 0, 4096 \<mapsto> 4]" "brk w_named = 4096" "heap_avail w_named = 7"
  "htab w_named = [4 \<mapsto> 1]" "hseq w_named = 4" "handle_avail w_named = 7"
  "objs w_named = [1 \<mapsto> \<lparr>k_count = 0, k_max = 2147483647, k_refs = 1,
                     k_name = Some (native_name ''s'')\<rparr>]"
  "names w_named = [native_name ''s'' \<mapsto> 1]"
  "open_fault w_named = (\<lambda>_. None)" "now w_named = 1000"
  by (simp_all add: w_named_def)

lemma strlen_replicate: "c \<noteq> NUL \<Longrightarrow> strlen (replicate n c) = n"
  by (simp add: strlen_def cstr_def takeWhile_replicate)

section \<open>Named semaphores: opening an existing name\<close>

text \<open>
  C1, as amended: for every existing named semaphore and every initial value within
  \<open>[0, SEM_VALUE_MAX]\<close>, \<open>sem_open\<close> without exclusive-create (with a name of 1 to
  504 bytes, storage available, and the native open succeeding) returns a non-null
  handle whose \<open>arch_sem_t\<close> holds a native handle of the existing object, leaves the
  object's count as it was, and returns the very same result for every other initial
  value within the bound. Every initial value above \<open>SEM_VALUE_MAX\<close> is rejected:
  \<open>sem_open\<close> returns \<open>NULL\<close> with \<open>EINVAL\<close> and changes nothing else, even though
  the name exists.
\<close>

theorem sem_open_existing_ignores_value:
  assumes "0 \<le> SEM_VALUE_MAX c" and "SEM_VALUE_MAX c < 2 ^ 31"
    and "uint val \<le> SEM_VALUE_MAX c"
    and "1 \<le> strlen name" and "strlen name \<le> 504"
    and "0 < heap_avail w"
    and "open_fault w (native_name name) = None"
    and "names w (native_name name) = Some oid"
    and "0 < handle_avail w"
    and "\<not> (oflag AND O_CREAT \<noteq> 0 \<and> oflag AND O_EXCL \<noteq> 0)"
  shows "\<exists>w' pv h.
           sem_open c w name oflag mode val = Returns (w', pv) \<and> pv \<noteq> NULL \<and>
           load_handle w' pv = Some h \<and> htab w' h = Some oid \<and>
           map_option k_count (objs w' oid) = map_option k_count (objs w oid) \<and>
           (\<forall>v. uint v \<le> SEM_VALUE_MAX c \<longrightarrow>
                sem_open c w name oflag mode v = Returns (w', pv)) \<and>
           (\<forall>v. SEM_VALUE_MAX c < uint v \<longrightarrow>
                sem_open c w name oflag mode v = Returns (w\<lparr>errno := Some EINVAL\<rparr>, NULL))"
proof -
  have g: "\<not> word_of_int (SEM_VALUE_MAX c) < v" if "uint v \<le> SEM_VALUE_MAX c" for v :: "32 word"
    using that assms(1,2) by (simp add: value_guard)
  let ?h = "hseq w + 4" and ?pv = "brk w + 8"
  let ?w' = "w\<lparr>mem := (mem w)(?pv \<mapsto> ?h), brk := ?pv, heap_avail := heap_avail w - 1,
      htab := (htab w)(?h \<mapsto> oid), hseq := ?h, handle_avail := handle_avail w - 1,
      objs := (case objs w oid of None \<Rightarrow> objs w
               | Some k \<Rightarrow> (objs w)(oid \<mapsto> k\<lparr>k_refs := Suc (k_refs k)\<rparr>))\<rparr>"
  have r: "sem_open c w name oflag mode v = Returns (?w', ?pv)"
    if "uint v \<le> SEM_VALUE_MAX c" for v
    using assms(4-10) g [OF that]
    by (auto simp add: sem_open_def sem_open_buffer calloc_def OpenSemaphoreA_def new_handle_def
        store_handle_def Let_def split: option.splits)
  have "map_option k_count (objs ?w' oid) = map_option k_count (objs w oid)"
    by (cases "objs w oid") simp_all
  moreover have "sem_open c w name oflag mode v = Returns (w\<lparr>errno := Some EINVAL\<rparr>, NULL)"
    if "SEM_VALUE_MAX c < uint v" for v
  proof -
    have "uint v < 2 ^ 32"
      using uint_bounded [of v] by simp
    with that assms(1) have "word_of_int (SEM_VALUE_MAX c) < v"
      by (simp add: value_guard)
    then show ?thesis
      by (simp add: sem_open_def set_errno_def)
  qed
  ultimately show ?thesis
    using r [OF assms(3)] r
    by (auto simp add: load_handle_def intro!: exI)
qed

theorem sem_open_existing_ignores_value_witness:
  "names w_named (native_name ''s'') = Some 1 \<and> uint (3 :: 32 word) \<le> SEM_VALUE_MAX hc0 \<and>
   sem_open hc0 w_named ''s'' 0 0 3 = sem_open hc0 w_named ''s'' 0 0 0 \<and>
   (\<exists>w' pv h. sem_open hc0 w_named ''s'' 0 0 3 = Returns (w', pv) \<and> pv \<noteq> NULL \<and>
      load_handle w' pv = Some h \<and> htab w' h = Some 1) \<and>
   SEM_VALUE_MAX hc0 < uint (0xFFFFFFFF :: 32 word) \<and>
   sem_open hc0 w_named ''s'' 0 0 0xFFFFFFFF = Returns (w_named\<lparr>errno := Some EINVAL\<rparr>, NULL)"
proof -
  have n: "names w_named (native_name ''s'') = Some 1"
    by (simp add: w_named_def)
  have "\<exists>w' pv h.
           sem_open hc0 w_named ''s'' 0 0 3 = Returns (w', pv) \<and> pv \<noteq> NULL \<and>
           load_handle w' pv = Some h \<and> htab w' h = Some 1 \<and>
           map_option k_count (objs w' 1) = map_option k_count (objs w_named 1) \<and>
           (\<forall>v. uint v \<le> SEM_VALUE_MAX hc0 \<longrightarrow>
                sem_open hc0 w_named ''s'' 0 0 v = Returns (w', pv)) \<and>
           (\<forall>v. SEM_VALUE_MAX hc0 < uint v \<longrightarrow>
                sem_open hc0 w_named ''s'' 0 0 v = Returns (w_named\<lparr>errno := Some EINVAL\<rparr>, NULL))"
    by (rule sem_open_existing_ignores_value [where oid = 1])
       (simp_all add: hc0_simps strlen_s n, simp_all add: w_named_def)
  then obtain w' pv h where r: "sem_open hc0 w_named ''s'' 0 0 3 = Returns (w', pv)"
    "pv \<noteq> NULL" "load_handle w' pv = Some h" "htab w' h = Some 1"
    "\<forall>v. uint v \<le> SEM_VALUE_MAX hc0 \<longrightarrow> sem_open hc0 w_named ''s'' 0 0 v = Returns (w', pv)"
    "\<forall>v. SEM_VALUE_MAX hc0 < uint v \<longrightarrow>
       sem_open hc0 w_named ''s'' 0 0 v = Returns (w_named\<lparr>errno := Some EINVAL\<rparr>, NULL)"
    by blast
  from r(5) have "sem_open hc0 w_named ''s'' 0 0 0 = Returns (w', pv)"
    by (simp add: hc0_simps)
  moreover from r(6)
  have "sem_open hc0 w_named ''s'' 0 0 0xFFFFFFFF = Returns (w_named\<lparr>errno := Some EINVAL\<rparr>, NULL)"
    by (simp add: hc0_simps)
  ultimately show ?thesis
    using r n by (simp add: hc0_simps)
qed

text \<open>
  As stated for every initial value, C1 fails: the name exists, exclusive-create is not
  requested, and the initial value \<open>SEM_VALUE_MAX + 1\<close> makes \<open>sem_open\<close> return
  \<open>NULL\<close> with \<open>EINVAL\<close>.
\<close>

theorem sem_open_value_counterexample:
  "names w_named (native_name ''s'') = Some 1 \<and> (0 :: 32 word) AND O_EXCL = 0 \<and>
   sem_open hc0 w_named ''s'' 0 0 0x80000000 = Returns (w_named\<lparr>errno := Some EINVAL\<rparr>, NULL)"
  by (simp add: sem_open_def hc0_simps w_named_def set_errno_def platform_defs)

section \<open>Waiting with a deadline that has passed\<close>

text \<open>
  C2: when the absolute deadline is at or before the current time, so that the
  relative duration is clamped to 0, \<open>sem_timedwait\<close> returns exactly what
  \<open>sem_trywait\<close> returns on the same handle, and the call does not block. On a
  handle of a live semaphore this is success (the count decremented) if the count was
  positive and \<open>-1\<close> with \<open>ETIMEDOUT\<close>, the clock untouched, if it was zero; for any
  other result of the native wait it is \<open>-1\<close> with \<open>EPERM\<close>.
\<close>

theorem sem_timedwait_past_deadline:
  assumes "deadline_ms ts \<le> now w"
  shows "sem_timedwait w sem ts = sem_trywait w sem \<and>
         sem_trywait w sem \<noteq> Blocks \<and>
         (\<forall>h oid k. sem \<noteq> NULL \<and> load_handle w sem = Some h \<and> htab w h = Some oid \<and>
              objs w oid = Some k \<longrightarrow>
            sem_trywait w sem =
              (if 0 < k_count k
               then Returns (w\<lparr>objs := (objs w)(oid \<mapsto> k\<lparr>k_count := k_count k - 1\<rparr>)\<rparr>, 0)
               else Returns (w\<lparr>errno := Some ETIMEDOUT\<rparr>, - 1))) \<and>
         (\<forall>h w1 rc. sem \<noteq> NULL \<and> load_handle w sem = Some h \<and>
              WaitForSingleObject w h 0 = Some (w1, rc) \<and>
              rc \<noteq> WAIT_OBJECT_0 \<and> rc \<noteq> WAIT_TIMEOUT \<longrightarrow>
            sem_trywait w sem = Returns (w1\<lparr>errno := Some EPERM\<rparr>, - 1))"
proof (intro conjI allI impI)
  show "sem_timedwait w sem ts = sem_trywait w sem"
    by (simp add: sem_timedwait_def sem_trywait_def past_deadline [OF assms]
        cong: option.case_cong)
  show "sem_trywait w sem \<noteq> Blocks"
    by (simp add: sem_trywait_def Let_def WaitForSingleObject_poll split: option.splits)
next
  fix h oid k
  assume "sem \<noteq> NULL \<and> load_handle w sem = Some h \<and> htab w h = Some oid \<and>
              objs w oid = Some k"
  then show "sem_trywait w sem =
              (if 0 < k_count k
               then Returns (w\<lparr>objs := (objs w)(oid \<mapsto> k\<lparr>k_count := k_count k - 1\<rparr>)\<rparr>, 0)
               else Returns (w\<lparr>errno := Some ETIMEDOUT\<rparr>, - 1))"
    by (simp add: sem_trywait_def WaitForSingleObject_def set_errno_def platform_defs)
next
  fix h w1 rc
  assume "sem \<noteq> NULL \<and> load_handle w sem = Some h \<and>
              WaitForSingleObject w h 0 = Some (w1, rc) \<and>
              rc \<noteq> WAIT_OBJECT_0 \<and> rc \<noteq> WAIT_TIMEOUT"
  then show "sem_trywait w sem = Returns (w1\<lparr>errno := Some EPERM\<rparr>, - 1)"
    by (simp add: sem_trywait_def set_errno_def)
qed

theorem sem_timedwait_past_deadline_witness:
  "deadline_ms \<lparr>tv_sec = 0, tv_nsec = 999999999\<rparr> \<le> now w_named \<and>
   sem_timedwait w_named 4096 \<lparr>tv_sec = 0, tv_nsec = 999999999\<rparr> =
     Returns (w_named\<lparr>errno := Some ETIMEDOUT\<rparr>, - 1) \<and>
   sem_trywait w_named 4096 = Returns (w_named\<lparr>errno := Some ETIMEDOUT\<rparr>, - 1) \<and>
   sem_timedwait
     (w_named\<lparr>objs := [1 \<mapsto> \<lparr>k_count = 2, k_max = 5, k_refs = 1, k_name = None\<rparr>]\<rparr>)
     4096 \<lparr>tv_sec = 0, tv_nsec = 999999999\<rparr> =
     Returns (w_named\<lparr>objs := [1 \<mapsto> \<lparr>k_count = 1, k_max = 5, k_refs = 1, k_name = None\<rparr>]\<rparr>, 0) \<and>
   sem_timedwait w_fresh 16 \<lparr>tv_sec = 0, tv_nsec = 999999999\<rparr> =
     Returns (w_fresh\<lparr>last_error := ERROR_INVALID_HANDLE, errno := Some EPERM\<rparr>, - 1)"
proof -
  let ?ts = "\<lparr>tv_sec = 0, tv_nsec = 999999999\<rparr>"
  let ?w2 = "w_named\<lparr>objs := [1 \<mapsto> \<lparr>k_count = 2, k_max = 5, k_refs = 1, k_name = None\<rparr>]\<rparr>"
  have d: "deadline_ms ?ts \<le> now w_named" "deadline_ms ?ts \<le> now w_fresh"
    "deadline_ms ?ts \<le> now ?w2"
    by (simp_all add: deadline_ms_def w_named_simps w_fresh_simps)
  note n = sem_timedwait_past_deadline [OF d(1), of 4096]
  note f = sem_timedwait_past_deadline [OF d(2), of 16]
  note p = sem_timedwait_past_deadline [OF d(3), of 4096]
  have "sem_trywait w_named 4096 = Returns (w_named\<lparr>errno := Some ETIMEDOUT\<rparr>, - 1)"
    using n by (simp add: load_handle_def w_named_simps)
  moreover have "sem_trywait ?w2 4096 =
      Returns (w_named\<lparr>objs := [1 \<mapsto> \<lparr>k_count = 1, k_max = 5, k_refs = 1, k_name = None\<rparr>]\<rparr>, 0)"
    using p by (simp add: load_handle_def w_named_simps)
  moreover have "WaitForSingleObject w_fresh 0 0 =
      Some (w_fresh\<lparr>last_error := ERROR_INVALID_HANDLE\<rparr>, WAIT_FAILED)"
    by (simp add: WaitForSingleObject_def w_fresh_simps)
  then have "sem_trywait w_fresh 16 =
      Returns (w_fresh\<lparr>last_error := ERROR_INVALID_HANDLE, errno := Some EPERM\<rparr>, - 1)"
    using f by (simp add: load_handle_def w_fresh_simps platform_defs)
  ultimately show ?thesis
    using n f p d by simp
qed

section \<open>\<open>sem_init\<close> followed by an operation on the same \<open>sem_t\<close>\<close>

text \<open>
  \<open>sem_init\<close> stores the address of the new \<open>arch_sem_t\<close> in the caller's slot
  (\<open>*sem = pv\<close>), whereas \<open>sem_post\<close>, \<open>sem_wait\<close>, \<open>sem_trywait\<close> and
  \<open>sem_timedwait\<close> take the slot itself for the \<open>arch_sem_t\<close>
  (\<open>pv = (arch_sem_t *) sem\<close>), as the result of \<open>sem_open\<close> requires. After
  \<open>sem_init\<close> they therefore hand the block's address to the native call in place of
  the handle that the block holds.
\<close>

lemma sem_init_succeeds:
  assumes "0 < SEM_VALUE_MAX c" and "SEM_VALUE_MAX c < 2 ^ 31"
    and "uint val \<le> SEM_VALUE_MAX c"
    and "sem \<noteq> NULL" and "mem w sem \<noteq> None"
    and "pshared = PTHREAD_PROCESS_PRIVATE c"
    and "0 < heap_avail w" and "0 < handle_avail w"
    and "mem w (brk w + 8) = None"
  shows "sem_init c w sem pshared val =
           Returns (w\<lparr>mem := (mem w)(brk w + 8 \<mapsto> hseq w + 4, sem \<mapsto> brk w + 8),
                       brk := brk w + 8, heap_avail := heap_avail w - 1,
                       htab := (htab w)(hseq w + 4 \<mapsto> Suc (oseq w)), hseq := hseq w + 4,
                       handle_avail := handle_avail w - 1,
                       objs := (objs w)(Suc (oseq w) \<mapsto>
                         \<lparr>k_count = nat (uint val), k_max = nat (SEM_VALUE_MAX c),
                            k_refs = 1, k_name = None\<rparr>),
                       oseq := Suc (oseq w)\<rparr>, 0)"
proof -
  have v: "\<not> word_of_int (SEM_VALUE_MAX c) < val"
    using assms(1-3) by (simp add: value_accepted)
  have s: "sint val = uint val"
    using assms(2,3) by (rule sint_value)
  have ne: "sem \<noteq> brk w + 8"
    using assms(5,9) by auto
  show ?thesis
    using assms(1,3-9) v ne
    by (auto simp add: sem_init_def calloc_def CreateSemaphore_def new_handle_def s
        store_handle_def Let_def)
qed

text \<open>
  C3 says that \<open>sem_init\<close> with an initial value in \<open>[0, SEM_VALUE_MAX]\<close> followed
  by \<open>sem_trywait\<close> succeeds iff the initial value is positive, and fails with
  \<open>ETIMEDOUT\<close> when it is 0. The code does otherwise: wherever \<open>sem_init\<close> succeeds
  and the address of the new block is not a handle value, the native semaphore is
  created with the requested count, and \<open>sem_trywait\<close> on the same \<open>sem_t\<close> returns
  \<open>-1\<close> with \<open>EPERM\<close> for every initial value, leaving the count as it was.
\<close>

theorem sem_init_then_trywait:
  assumes "0 < SEM_VALUE_MAX c" and "SEM_VALUE_MAX c < 2 ^ 31"
    and "uint val \<le> SEM_VALUE_MAX c"
    and "sem \<noteq> NULL" and "mem w sem \<noteq> None"
    and "pshared = PTHREAD_PROCESS_PRIVATE c"
    and "0 < heap_avail w" and "0 < handle_avail w"
    and "mem w (brk w + 8) = None"
    and "htab w (brk w + 8) = None" and "brk w + 8 \<noteq> hseq w + 4"
  shows "\<exists>w1 w2 h oid k.
           sem_init c w sem pshared val = Returns (w1, 0) \<and>
           load_handle w1 sem = Some (brk w + 8) \<and>
           load_handle w1 (brk w + 8) = Some h \<and> htab w1 h = Some oid \<and>
           objs w1 oid = Some k \<and> int (k_count k) = uint val \<and>
           sem_trywait w1 sem = Returns (w2, - 1) \<and> errno w2 = Some EPERM \<and>
           objs w2 = objs w1"
proof -
  have "sem \<noteq> brk w + 8"
    using assms(5,9) by auto
  then show ?thesis
    using assms(4,10,11)
    by (simp add: sem_init_succeeds [OF assms(1-9)] sem_trywait_def load_handle_def
        WaitForSingleObject_def set_errno_def Let_def platform_defs)
qed

theorem sem_init_then_trywait_witness:
  "0 < uint (1 :: 32 word) \<and>
   (\<exists>w1 w2. sem_init hc0 w_fresh 16 0 1 = Returns (w1, 0) \<and>
      sem_trywait w1 16 = Returns (w2, - 1) \<and> errno w2 = Some EPERM)"
proof -
  have "\<exists>w1 w2 h oid k.
           sem_init hc0 w_fresh 16 0 1 = Returns (w1, 0) \<and>
           load_handle w1 16 = Some (brk w_fresh + 8) \<and>
           load_handle w1 (brk w_fresh + 8) = Some h \<and> htab w1 h = Some oid \<and>
           objs w1 oid = Some k \<and> int (k_count k) = uint (1 :: 32 word) \<and>
           sem_trywait w1 16 = Returns (w2, - 1) \<and> errno w2 = Some EPERM \<and>
           objs w2 = objs w1"
    by (rule sem_init_then_trywait) (simp_all add: hc0_simps w_fresh_simps)
  then show ?thesis
    by auto
qed

section \<open>Post and wait on a semaphore of count 0\<close>

text \<open>
  On a handle whose \<open>arch_sem_t\<close> holds a live native handle, as \<open>sem_open\<close> returns
  it, \<open>sem_post\<close> then \<open>sem_wait\<close> succeed and restore the world, and \<open>sem_trywait\<close>
  then fails with \<open>ETIMEDOUT\<close>.
\<close>

lemma post_wait_roundtrip:
  assumes "sem \<noteq> NULL" and "load_handle w sem = Some h" and "htab w h = Some oid"
    and "objs w oid = Some k" and "k_count k = 0" and "0 < k_max k"
  shows "sem_post w sem = Returns (w\<lparr>objs := (objs w)(oid \<mapsto> k\<lparr>k_count := 1\<rparr>)\<rparr>, 0) \<and>
         sem_wait (w\<lparr>objs := (objs w)(oid \<mapsto> k\<lparr>k_count := 1\<rparr>)\<rparr>) sem = Returns (w, 0) \<and>
         sem_trywait w sem = Returns (w\<lparr>errno := Some ETIMEDOUT\<rparr>, - 1)"
proof -
  have "(objs w)(oid \<mapsto> k) = objs w"
    using assms(4) by (rule map_upd_triv)
  moreover have "k\<lparr>k_count := 0\<rparr> = k"
    using assms(5) by simp
  ultimately have "w\<lparr>objs := (objs w)(oid \<mapsto> k\<lparr>k_count := 0\<rparr>)\<rparr> = w"
    by simp
  then show ?thesis
    using assms
    by (simp add: sem_post_def sem_wait_def sem_trywait_def load_handle_def
        ReleaseSemaphore_def WaitForSingleObject_def set_errno_def Let_def platform_defs)
qed

lemma post_wait_roundtrip_named:
  "sem_post w_named 4096 =
     Returns (w_named\<lparr>objs := (objs w_named)(1 \<mapsto>
        \<lparr>k_count = 1, k_max = 2147483647, k_refs = 1, k_name = Some (native_name ''s'')\<rparr>)\<rparr>, 0) \<and>
   sem_wait (w_named\<lparr>objs := (objs w_named)(1 \<mapsto>
        \<lparr>k_count = 1, k_max = 2147483647, k_refs = 1, k_name = Some (native_name ''s'')\<rparr>)\<rparr>) 4096 =
     Returns (w_named, 0) \<and>
   sem_trywait w_named 4096 = Returns (w_named\<lparr>errno := Some ETIMEDOUT\<rparr>, - 1)"
  using post_wait_roundtrip [of 4096 w_named 4 1
      "\<lparr>k_count = 0, k_max = 2147483647, k_refs = 1, k_name = Some (native_name ''s'')\<rparr>"]
  by (simp add: load_handle_def w_named_simps)

text \<open>
  C4 says that on a freshly created semaphore of count 0, \<open>sem_post\<close> then \<open>sem_wait\<close>
  both succeed and leave the count at 0, so that \<open>sem_trywait\<close> then fails with
  \<open>ETIMEDOUT\<close>. For a semaphore created by \<open>sem_init\<close> the code does otherwise:
  wherever \<open>sem_init\<close> with initial value 0 succeeds and the address of the new block
  is not a handle value, \<open>sem_post\<close> on the same \<open>sem_t\<close> returns \<open>-1\<close> with
  \<open>EINVAL\<close> and leaves the count at 0, and \<open>sem_wait\<close> returns \<open>-1\<close> with \<open>EPERM\<close>.
\<close>

theorem sem_init_then_post_wait:
  assumes "0 < SEM_VALUE_MAX c" and "SEM_VALUE_MAX c < 2 ^ 31"
    and "sem \<noteq> NULL" and "mem w sem \<noteq> None"
    and "pshared = PTHREAD_PROCESS_PRIVATE c"
    and "0 < heap_avail w" and "0 < handle_avail w"
    and "mem w (brk w + 8) = None"
    and "htab w (brk w + 8) = None" and "brk w + 8 \<noteq> hseq w + 4"
  shows "\<exists>w1 w2 w3 h oid k.
           sem_init c w sem pshared 0 = Returns (w1, 0) \<and>
           load_handle w1 (brk w + 8) = Some h \<and> htab w1 h = Some oid \<and>
           objs w1 oid = Some k \<and> k_count k = 0 \<and>
           sem_post w1 sem = Returns (w2, - 1) \<and> errno w2 = Some EINVAL \<and>
           objs w2 = objs w1 \<and>
           sem_wait w1 sem = Returns (w3, - 1) \<and> errno w3 = Some EPERM"
proof -
  have z: "uint (0 :: 32 word) \<le> SEM_VALUE_MAX c"
    using assms(1) by simp
  have "sem \<noteq> brk w + 8"
    using assms(4,8) by auto
  then show ?thesis
    using assms(3,9,10)
    by (simp add: sem_init_succeeds [OF assms(1,2) z assms(3-8)] sem_post_def sem_wait_def
        load_handle_def ReleaseSemaphore_def WaitForSingleObject_def set_errno_def Let_def
        platform_defs)
qed

theorem sem_init_then_post_wait_witness:
  "\<exists>w1 w2 w3. sem_init hc0 w_fresh 16 0 0 = Returns (w1, 0) \<and>
      sem_post w1 16 = Returns (w2, - 1) \<and> errno w2 = Some EINVAL \<and>
      sem_wait w1 16 = Returns (w3, - 1) \<and> errno w3 = Some EPERM"
proof -
  have "\<exists>w1 w2 w3 h oid k.
           sem_init hc0 w_fresh 16 0 0 = Returns (w1, 0) \<and>
           load_handle w1 (brk w_fresh + 8) = Some h \<and> htab w1 h = Some oid \<and>
           objs w1 oid = Some k \<and> k_count k = 0 \<and>
           sem_post w1 16 = Returns (w2, - 1) \<and> errno w2 = Some EINVAL \<and>
           objs w2 = objs w1 \<and>
           sem_wait w1 16 = Returns (w3, - 1) \<and> errno w3 = Some EPERM"
    by (rule sem_init_then_post_wait) (simp_all add: hc0_simps w_fresh_simps)
  then show ?thesis
    by blast
qed

section \<open>Named semaphores: exclusive creation of an existing name\<close>

lemma sem_open_exclusive_found:
  assumes "0 \<le> SEM_VALUE_MAX c" and "SEM_VALUE_MAX c < 2 ^ 31"
    and "uint val \<le> SEM_VALUE_MAX c"
    and "1 \<le> strlen name" and "strlen name \<le> 504"
    and "oflag AND O_CREAT \<noteq> 0" and "oflag AND O_EXCL \<noteq> 0"
    and "0 < heap_avail w"
    and "open_fault w (native_name name) = None"
    and "names w (native_name name) = Some oid"
    and "0 < handle_avail w"
  shows "\<exists>w'. sem_open c w name oflag mode val = Returns (w', NULL) \<and>
           errno w' = Some EEXIST \<and>
           htab w' (hseq w + 4) = None \<and> handle_avail w' = handle_avail w \<and>
           load_handle w' (brk w + 8) = None \<and> heap_avail w' = heap_avail w"
  using assms(4-11) value_accepted [OF assms(1-3)]
  by (auto simp add: sem_open_def sem_open_buffer calloc_def OpenSemaphoreA_def new_handle_def
      CloseHandle_def free_def set_errno_def load_handle_def
      store_handle_def Let_def split: option.splits)

lemma sem_open_created_named:
  assumes "1 \<le> strlen name" and "strlen name \<le> 504"
    and "oflag AND O_CREAT \<noteq> 0" and "oflag AND O_EXCL \<noteq> 0"
    and "sem_open c w name oflag mode val = Returns (w1, pv1)" and "pv1 \<noteq> NULL"
  shows "names w1 (native_name name) \<noteq> None \<and> open_fault w1 = open_fault w"
  using assms
  by (auto simp add: sem_open_def sem_open_buffer calloc_def OpenSemaphoreA_def new_handle_def
      CloseHandle_def CreateSemaphore_def free_def set_errno_def load_handle_def GetLastError_def
      store_handle_def Let_def split: option.splits if_splits)

text \<open>
  C5: with both \<open>O_CREAT\<close> and \<open>O_EXCL\<close> set (a valid initial value, a name of 1 to
  504 bytes), whenever a native semaphore exists under the name and the native open
  succeeds, \<open>sem_open\<close> closes the handle it has just opened (the handle is gone from
  the handle table and its slot is free again), frees the handle storage and returns
  \<open>NULL\<close> with \<open>errno = EEXIST\<close>. In particular, after a first exclusive-create
  \<open>sem_open\<close> has succeeded, a second one of the same name fails this way (storage
  and a handle slot being available, and the system not refusing the name).
\<close>

theorem sem_open_exclusive_existing:
  assumes "0 \<le> SEM_VALUE_MAX c" and "SEM_VALUE_MAX c < 2 ^ 31"
    and "uint val \<le> SEM_VALUE_MAX c" and "uint val' \<le> SEM_VALUE_MAX c"
    and "1 \<le> strlen name" and "strlen name \<le> 504"
    and "oflag AND O_CREAT \<noteq> 0" and "oflag AND O_EXCL \<noteq> 0"
  shows "(0 < heap_avail w \<and> open_fault w (native_name name) = None \<and>
          names w (native_name name) = Some oid \<and> 0 < handle_avail w \<longrightarrow>
            (\<exists>w'. sem_open c w name oflag mode val = Returns (w', NULL) \<and>
               errno w' = Some EEXIST \<and>
               htab w' (hseq w + 4) = None \<and> handle_avail w' = handle_avail w \<and>
               load_handle w' (brk w + 8) = None \<and> heap_avail w' = heap_avail w)) \<and>
         (\<forall>w1 pv1. sem_open c w name oflag mode val = Returns (w1, pv1) \<and> pv1 \<noteq> NULL \<and>
            open_fault w (native_name name) = None \<and>
            0 < heap_avail w1 \<and> 0 < handle_avail w1 \<longrightarrow>
            returns_errno (sem_open c w1 name oflag mode val') NULL EEXIST)"
proof (intro conjI allI impI)
  assume "0 < heap_avail w \<and> open_fault w (native_name name) = None \<and>
          names w (native_name name) = Some oid \<and> 0 < handle_avail w"
  then show "\<exists>w'. sem_open c w name oflag mode val = Returns (w', NULL) \<and>
               errno w' = Some EEXIST \<and>
               htab w' (hseq w + 4) = None \<and> handle_avail w' = handle_avail w \<and>
               load_handle w' (brk w + 8) = None \<and> heap_avail w' = heap_avail w"
    using sem_open_exclusive_found [OF assms(1,2,3,5-8)] by blast
next
  fix w1 pv1
  assume a: "sem_open c w name oflag mode val = Returns (w1, pv1) \<and> pv1 \<noteq> NULL \<and>
            open_fault w (native_name name) = None \<and>
            0 < heap_avail w1 \<and> 0 < handle_avail w1"
  then have "names w1 (native_name name) \<noteq> None \<and> open_fault w1 = open_fault w"
    using sem_open_created_named [OF assms(5-8)] by blast
  then obtain oid1 where "names w1 (native_name name) = Some oid1"
    and "open_fault w1 (native_name name) = None"
    using a by auto
  with a sem_open_exclusive_found [OF assms(1,2,4,5-8), of w1 oid1 mode]
  show "returns_errno (sem_open c w1 name oflag mode val') NULL EEXIST"
    by auto
qed

theorem sem_open_exclusive_existing_witness:
  "returns_errno (sem_open hc0 w_named ''s'' (O_CREAT OR O_EXCL) 0 0) NULL EEXIST \<and>
   sem_open hc0 w_fresh ''s'' (O_CREAT OR O_EXCL) 0 0 = Returns (w_named, 4096) \<and>
   returns_errno (sem_open hc0 w_named ''s'' (O_CREAT OR O_EXCL) 0 5) NULL EEXIST"
proof -
  have f: "(O_CREAT OR O_EXCL) AND O_CREAT \<noteq> 0" "(O_CREAT OR O_EXCL) AND O_EXCL \<noteq> 0"
    by (simp_all add: platform_defs)
  have n: "names w_named (native_name ''s'') = Some 1" "0 < heap_avail w_named"
    "0 < handle_avail w_named" "open_fault w_named (native_name ''s'') = None"
    "open_fault w_fresh (native_name ''s'') = None"
    by (simp_all add: w_named_def w_fresh_def)
  have c: "0 \<le> SEM_VALUE_MAX hc0" "SEM_VALUE_MAX hc0 < 2 ^ 31"
    "uint (0 :: 32 word) \<le> SEM_VALUE_MAX hc0" "uint (5 :: 32 word) \<le> SEM_VALUE_MAX hc0"
    "1 \<le> strlen ''s''" "strlen ''s'' \<le> 504"
    by (simp_all add: hc0_simps strlen_s)
  note t1 = sem_open_exclusive_existing [OF c(1,2,3,3,5,6) f, of w_named 1 0]
  note t2 = sem_open_exclusive_existing [OF c(1,2,3,4,5,6) f, of w_fresh 1 0]
  from t1 n have "returns_errno (sem_open hc0 w_named ''s'' (O_CREAT OR O_EXCL) 0 0) NULL EEXIST"
    by auto
  moreover from t2 n sem_open_fresh_create
  have "returns_errno (sem_open hc0 w_named ''s'' (O_CREAT OR O_EXCL) 0 5) NULL EEXIST"
    by auto
  ultimately show ?thesis
    using sem_open_fresh_create by simp
qed

section \<open>Named semaphores: when the native open fails\<close>

text \<open>
  C6: when the native open of the name fails (valid arguments, handle storage
  allocated), \<open>sem_open\<close> looks at the reason. For every reason other than
  \<open>ERROR_SEM_NOT_FOUND\<close> and \<open>ERROR_FILE_NOT_FOUND\<close> it returns \<open>NULL\<close> with
  \<open>EPERM\<close>. When the object was not found and \<open>O_CREAT\<close> is not set it returns
  \<open>NULL\<close> with \<open>ENOENT\<close>. When the object was not found and \<open>O_CREAT\<close> is set it
  calls the native create with the initial value, \<open>SEM_VALUE_MAX\<close> and the name: if
  that fails it returns \<open>NULL\<close> with \<open>ENOSPC\<close>, otherwise the handle storage
  holding the new native handle.
\<close>

theorem sem_open_native_open_failure:
  assumes "0 \<le> SEM_VALUE_MAX c" and "SEM_VALUE_MAX c < 2 ^ 31"
    and "uint val \<le> SEM_VALUE_MAX c"
    and "1 \<le> strlen name" and "strlen name \<le> 504"
    and "0 < heap_avail w"
    and "OpenSemaphoreA w SEMAPHORE_MODIFY_STATE False (native_name name) = (wn, NULL)"
  shows "(last_error wn \<noteq> ERROR_SEM_NOT_FOUND \<and> last_error wn \<noteq> ERROR_FILE_NOT_FOUND \<longrightarrow>
            returns_errno (sem_open c w name oflag mode val) NULL EPERM) \<and>
         ((last_error wn = ERROR_SEM_NOT_FOUND \<or> last_error wn = ERROR_FILE_NOT_FOUND) \<and>
          oflag AND O_CREAT = 0 \<longrightarrow>
            returns_errno (sem_open c w name oflag mode val) NULL ENOENT) \<and>
         ((last_error wn = ERROR_SEM_NOT_FOUND \<or> last_error wn = ERROR_FILE_NOT_FOUND) \<and>
          oflag AND O_CREAT \<noteq> 0 \<longrightarrow>
            (case CreateSemaphore ((fst (calloc w))\<lparr>last_error := last_error wn\<rparr>) (sint val)
                    (SEM_VALUE_MAX c) (Some (native_name name)) of
               (w4, h') \<Rightarrow>
                 if h' = NULL
                 then returns_errno (sem_open c w name oflag mode val) NULL ENOSPC
                 else sem_open c w name oflag mode val =
                        Returns (store_handle w4 (brk w + 8) h', brk w + 8)))"
proof -
  have wn: "wn = w\<lparr>last_error := last_error wn\<rparr>"
    using assms(7) by (rule OpenSemaphoreA_fails)
  have o: "OpenSemaphoreA (w\<lparr>mem := m, brk := b, heap_avail := a\<rparr>) SEMAPHORE_MODIFY_STATE False
             (native_name name) = (wn\<lparr>mem := m, brk := b, heap_avail := a\<rparr>, NULL)" for m b a
    by (simp add: OpenSemaphoreA_calloc assms(7))
  have hp: "heap_avail wn = heap_avail w" "brk wn = brk w" "mem wn = mem w"
    by (subst wn, simp)+
  have "(fst (calloc w))\<lparr>last_error := last_error wn\<rparr> =
      (w\<lparr>last_error := last_error wn\<rparr>)\<lparr>brk := brk w + 8, heap_avail := heap_avail w - Suc 0,
         mem := (mem w)(brk w + 8 \<mapsto> 0)\<rparr>"
    using assms(6) by (simp add: calloc_def Let_def)
  then have c3: "(fst (calloc w))\<lparr>last_error := last_error wn\<rparr> =
      wn\<lparr>brk := brk w + 8, heap_avail := heap_avail w - Suc 0,
         mem := (mem w)(brk w + 8 \<mapsto> 0)\<rparr>"
    using wn by simp
  show ?thesis
    unfolding c3
    using assms(4-6) value_accepted [OF assms(1-3)] hp
    by (auto simp add: sem_open_def sem_open_buffer calloc_def o GetLastError_def
        free_def set_errno_def store_handle_def Let_def split: prod.splits)
qed

theorem sem_open_native_open_failure_witness:
  "returns_errno (sem_open hc0 (w_fresh\<lparr>open_fault := \<lambda>_. Some 5\<rparr>) ''s'' O_CREAT 0 0) NULL EPERM \<and>
   returns_errno (sem_open hc0 w_fresh ''s'' 0 0 0) NULL ENOENT \<and>
   returns_errno (sem_open hc0 (w_fresh\<lparr>handle_avail := 0\<rparr>) ''s'' O_CREAT 0 0) NULL ENOSPC \<and>
   sem_open hc0 w_fresh ''s'' O_CREAT 0 0 = Returns (w_named, 4096)"
proof -
  have c: "0 \<le> SEM_VALUE_MAX hc0" "SEM_VALUE_MAX hc0 < 2 ^ 31"
    "uint (0 :: 32 word) \<le> SEM_VALUE_MAX hc0" "1 \<le> strlen ''s''" "strlen ''s'' \<le> 504"
    by (simp_all add: hc0_simps strlen_s)
  have o1: "OpenSemaphoreA (w_fresh\<lparr>open_fault := \<lambda>_. Some 5\<rparr>) SEMAPHORE_MODIFY_STATE False
      (native_name ''s'') = (w_fresh\<lparr>open_fault := \<lambda>_. Some 5, last_error := 5\<rparr>, NULL)"
    by (simp add: OpenSemaphoreA_def)
  have o2: "OpenSemaphoreA w_fresh SEMAPHORE_MODIFY_STATE False (native_name ''s'') =
      (w_fresh\<lparr>last_error := ERROR_FILE_NOT_FOUND\<rparr>, NULL)"
    by (simp add: OpenSemaphoreA_def w_fresh_simps)
  have o3: "OpenSemaphoreA (w_fresh\<lparr>handle_avail := 0\<rparr>) SEMAPHORE_MODIFY_STATE False
      (native_name ''s'') = (w_fresh\<lparr>handle_avail := 0, last_error := ERROR_FILE_NOT_FOUND\<rparr>, NULL)"
    by (simp add: OpenSemaphoreA_def w_fresh_simps)
  have "returns_errno (sem_open hc0 (w_fresh\<lparr>open_fault := \<lambda>_. Some 5\<rparr>) ''s'' O_CREAT 0 0)
      NULL EPERM"
    using sem_open_native_open_failure [OF c _ o1, of O_CREAT 0]
    by (simp add: w_fresh_simps platform_defs)
  moreover have "returns_errno (sem_open hc0 w_fresh ''s'' 0 0 0) NULL ENOENT"
    using sem_open_native_open_failure [OF c _ o2, of 0 0]
    by (simp add: w_fresh_simps platform_defs)
  moreover have "returns_errno (sem_open hc0 (w_fresh\<lparr>handle_avail := 0\<rparr>) ''s'' O_CREAT 0 0)
      NULL ENOSPC"
    using sem_open_native_open_failure [OF c _ o3, of O_CREAT 0]
    by (simp add: w_fresh_simps platform_defs calloc_def CreateSemaphore_def hc0_simps)
  moreover have "sem_open hc0 w_fresh ''s'' O_CREAT 0 0 = Returns (w_named, 4096)"
    using sem_open_native_open_failure [OF c _ o2, of O_CREAT 0]
    by (simp add: w_fresh_def w_named_def platform_defs calloc_def CreateSemaphore_def
        new_handle_def store_handle_def hc0_simps Let_def)
  ultimately show ?thesis
    by simp
qed

section \<open>Unnamed semaphores: the value bound of \<open>sem_init\<close>\<close>

text \<open>
  C7: for every shared flag (and every slot pointer), an initial value strictly greater
  than \<open>SEM_VALUE_MAX\<close> makes \<open>sem_init\<close> return \<open>-1\<close> with \<open>errno = EINVAL\<close>; the
  world is otherwise unchanged, so nothing was allocated and no native object was
  created. \<open>SEM_VALUE_MAX\<close> is a non-negative \<open>int\<close>.
\<close>

theorem sem_init_rejects_large_value:
  assumes "0 \<le> SEM_VALUE_MAX c" and "SEM_VALUE_MAX c < uint val"
  shows "sem_init c w sem pshared val = Returns (w\<lparr>errno := Some EINVAL\<rparr>, - 1)"
proof -
  have "uint val < 2 ^ 32"
    using uint_bounded [of val] by simp
  with assms have "word_of_int (SEM_VALUE_MAX c) < val"
    by (simp add: value_guard)
  then show ?thesis
    by (simp add: sem_init_def set_errno_def)
qed

text \<open>The instance \<open>SEM_VALUE_MAX + 1\<close> with \<open>SEM_VALUE_MAX = INT_MAX\<close>.\<close>

theorem sem_init_rejects_large_value_witness:
  "0 \<le> SEM_VALUE_MAX hc0 \<and> SEM_VALUE_MAX hc0 < uint (0x80000000 :: 32 word) \<and>
   uint (0x80000000 :: 32 word) = SEM_VALUE_MAX hc0 + 1 \<and>
   sem_init hc0 w_fresh 16 0 0x80000000 = Returns (w_fresh\<lparr>errno := Some EINVAL\<rparr>, - 1)"
  using sem_init_rejects_large_value [of hc0 "0x80000000" w_fresh 16 0]
  by (simp add: hc0_def)

section \<open>Unlinking\<close>

text \<open>
  C8: for every name and every world, whether or not a semaphore exists under the
  name, \<open>sem_unlink\<close> returns 0 and leaves the whole world as it was: the name
  directory, the native objects, the handle table and the store are untouched.
\<close>

theorem sem_unlink_no_action:
  "sem_unlink w name = Returns (w, 0)"
  by (simp add: sem_unlink_def)

section \<open>Named semaphores: the name guard and the buffer\<close>

lemma sem_open_accepted_not_EINVAL:
  assumes "1 \<le> strlen name" and "strlen name \<le> 504"
    and "\<not> word_of_int (SEM_VALUE_MAX c) < val"
  shows "\<not> returns_errno (sem_open c w name oflag mode val) NULL EINVAL"
  using assms calloc_result [of w]
  by (auto simp add: sem_open_def sem_open_buffer Let_def split: prod.splits)

lemma sem_open_rejected:
  assumes "strlen name = 0 \<or> 504 < strlen name" and "strlen name < 2 ^ 32"
  shows "sem_open c w name oflag mode val = Returns (w\<lparr>errno := Some EINVAL\<rparr>, NULL)"
proof -
  let ?len = "sint (word_of_nat (strlen name) :: 32 word)"
  have "504 < ?len \<or> ?len < 1"
  proof (cases "strlen name < 2 ^ 31")
    case True
    with assms(1) show ?thesis by (auto simp add: len_guard)
  next
    case False
    with assms(2) len_negative [of "strlen name"] show ?thesis by simp
  qed
  then show ?thesis
    by (auto simp add: sem_open_def set_errno_def)
qed

text \<open>
  For a valid initial value and a name shorter than \<open>2^32\<close> bytes, \<open>sem_open\<close> returns
  \<open>NULL\<close> with \<open>EINVAL\<close> exactly for the names of length 0 or of length greater than
  \<open>504 = 512 - 8\<close>. For every accepted name the three writes (the 7 bytes of the
  prefix, the bytes of the name, the terminating NUL) stay inside the buffer, use at
  most 512 bytes, and leave the prefixed name in it as a C string. No call of
  \<open>sem_open\<close>, whatever its arguments, writes out of bounds.
\<close>

lemma sem_open_name_guard:
  "(0 \<le> SEM_VALUE_MAX c \<and> SEM_VALUE_MAX c < 2 ^ 31 \<and> uint val \<le> SEM_VALUE_MAX c \<and>
    strlen name < 2 ^ 32 \<longrightarrow>
      returns_errno (sem_open c w name oflag mode val) NULL EINVAL =
        (strlen name = 0 \<or> 512 - 8 < strlen name)) \<and>
   (1 \<le> strlen name \<and> strlen name \<le> 512 - 8 \<longrightarrow>
      (\<exists>b. fill_buffer buffer_junk name (int (strlen name)) = Some b \<and>
           length b = length buffer_junk \<and>
           length global_prefix + strlen name + 1 \<le> length buffer_junk \<and>
           cstr b = native_name name)) \<and>
   length buffer_junk = 512 \<and>
   sem_open c w name oflag mode val \<noteq> Undefined"
proof (intro conjI impI)
  assume a: "0 \<le> SEM_VALUE_MAX c \<and> SEM_VALUE_MAX c < 2 ^ 31 \<and> uint val \<le> SEM_VALUE_MAX c \<and>
    strlen name < 2 ^ 32"
  then have v: "\<not> word_of_int (SEM_VALUE_MAX c) < val"
    by (simp add: value_accepted)
  show "returns_errno (sem_open c w name oflag mode val) NULL EINVAL =
        (strlen name = 0 \<or> 512 - 8 < strlen name)"
  proof (cases "strlen name = 0 \<or> 504 < strlen name")
    case True
    with a show ?thesis
      by (simp add: sem_open_rejected)
  next
    case False
    then have "1 \<le> strlen name" "strlen name \<le> 504"
      by auto
    from sem_open_accepted_not_EINVAL [OF this v] False show ?thesis
      by simp
  qed
next
  assume "1 \<le> strlen name \<and> strlen name \<le> 512 - 8"
  then show "\<exists>b. fill_buffer buffer_junk name (int (strlen name)) = Some b \<and>
           length b = length buffer_junk \<and>
           length global_prefix + strlen name + 1 \<le> length buffer_junk \<and>
           cstr b = native_name name"
    using fill_buffer_cstr [of buffer_junk name]
    by (auto simp add: buffer_junk_length length_global_prefix)
qed (simp_all add: buffer_junk_length sem_open_defined)

lemma sem_open_name_guard_examples:
  "returns_errno (sem_open hc0 w_fresh [] 0 0 0) NULL EINVAL \<and>
   returns_errno (sem_open hc0 w_fresh (replicate 505 (CHR ''a'')) 0 0 0) NULL EINVAL \<and>
   \<not> returns_errno (sem_open hc0 w_fresh (replicate 504 (CHR ''a'')) 0 0 0) NULL EINVAL \<and>
   (\<exists>b. fill_buffer buffer_junk (replicate 504 (CHR ''a'')) 504 = Some b \<and> length b = 512 \<and>
      cstr b = native_name (replicate 504 (CHR ''a'')))"
proof -
  have a: "CHR ''a'' \<noteq> NUL"
    by (simp add: NUL_def)
  have e: "strlen [] = 0"
    by (simp add: strlen_def cstr_def)
  note l = strlen_replicate [OF a]
  show ?thesis
    using sem_open_name_guard [where val = 0 and c = hc0 and name = "[]" and w = w_fresh
        and oflag = 0 and mode = 0]
      sem_open_name_guard [where val = 0 and c = hc0 and name = "replicate 505 (CHR ''a'')"
        and w = w_fresh and oflag = 0 and mode = 0]
      sem_open_name_guard [where val = 0 and c = hc0 and name = "replicate 504 (CHR ''a'')"
        and w = w_fresh and oflag = 0 and mode = 0]
    by (auto simp add: l e hc0_simps)
qed

lemma len_wraps:
  assumes "2 ^ 32 \<le> n" and "n < 2 ^ 32 + 2 ^ 31"
  shows "sint (word_of_nat n :: 32 word) = int (n - 2 ^ 32)"
proof -
  have "n = (n - 2 ^ 32) + 2 ^ 32"
    using assms(1) by simp
  then have "(word_of_nat n :: 32 word) = word_of_nat (n - 2 ^ 32) + word_of_nat (2 ^ 32)"
    by (metis of_nat_add)
  moreover have "(word_of_nat (2 ^ 32) :: 32 word) = 0"
    by simp
  ultimately have "(word_of_nat n :: 32 word) = word_of_nat (n - 2 ^ 32)"
    by simp
  moreover have "n - 2 ^ 32 < 2 ^ 31"
    using assms by simp
  ultimately show ?thesis
    by (simp only: len_guard)
qed

lemma take_within_cstr:
  assumes "k \<le> strlen name"
  shows "take k name = take k (cstr name)" and "NUL \<notin> set (take k name)"
    and "cstr (take k name) = take k name" and "strlen (take k name) = k"
proof -
  have "take k (cstr name) = take k (take (strlen name) name)"
    by (simp only: take_strlen)
  also have "\<dots> = take k name"
    using assms by (simp add: min_def)
  finally show t: "take k name = take k (cstr name)"
    by simp
  have "set (take k (cstr name)) \<subseteq> set (cstr name)"
    by (rule set_take_subset)
  with cstr_no_NUL [of name] show n: "NUL \<notin> set (take k name)"
    unfolding t by auto
  then show c: "cstr (take k name) = take k name"
    by (auto simp add: cstr_def takeWhile_eq_all_conv)
  have "k \<le> length name"
    using assms strlen_le_length [of name] by simp
  then show "strlen (take k name) = k"
    by (simp add: strlen_def c)
qed

lemma fill_buffer_prefix:
  assumes "length junk = 512" and "1 \<le> k" and "k \<le> 504" and "k \<le> strlen name"
  shows "fill_buffer junk name (int k) =
           Some (global_prefix @ take k name @ NUL # drop (k + 8) junk)"
proof -
  have kl: "k \<le> length name"
    using assms(4) strlen_le_length [of name] by simp
  have b1: "memcpy junk 0 (global_prefix @ [NUL]) 7 = Some (global_prefix @ drop 7 junk)"
    using assms by (simp add: memcpy_def length_global_prefix)
  have b2: "memcpy (global_prefix @ drop 7 junk) 7 name k =
              Some (global_prefix @ take k name @ drop (k + 7) junk)"
    using assms kl
    by (simp add: memcpy_def length_global_prefix add.commute)
  have "(global_prefix @ take k name @ drop (k + 7) junk)[k + 7 := NUL] =
          global_prefix @ take k name @ (drop (k + 7) junk)[0 := NUL]"
    using kl by (simp add: list_update_append length_global_prefix)
  moreover have "(drop (k + 7) junk)[0 := NUL] = NUL # drop (k + 8) junk"
  proof -
    have "k + 7 < length junk" using assms by simp
    then have "drop (k + 7) junk = junk ! (k + 7) # drop (Suc (k + 7)) junk"
      by (rule Cons_nth_drop_Suc [symmetric])
    then show ?thesis by (simp add: add.commute)
  qed
  ultimately have b3: "store_byte (global_prefix @ take k name @ drop (k + 7) junk) (int k + 7) NUL =
      Some (global_prefix @ take k name @ NUL # drop (k + 8) junk)"
    using assms kl by (simp add: store_byte_def length_global_prefix nat_add_distrib)
  show ?thesis
    by (simp add: fill_buffer_def b1 b2 b3)
qed

text \<open>
  C9 says that the name guard of \<open>sem_open\<close> is exact: \<open>EINVAL\<close> for exactly the names
  of length 0 or greater than 504, and every buffer write in bounds. The writes are in
  bounds (above), but the guard is not exact: \<open>int len = strlen(name)\<close> narrows the
  length to 32 bits before it is compared. For a valid initial value, a name of more
  than \<open>2^32\<close> and at most \<open>2^32 + 504\<close> bytes is longer than 504 bytes and is not
  rejected with \<open>EINVAL\<close>: the call does exactly what it does for the first
  \<open>strlen name - 2^32\<close> bytes of the name, so it opens or creates another semaphore.
\<close>

theorem sem_open_name_length_wraps:
  assumes "0 \<le> SEM_VALUE_MAX c" and "SEM_VALUE_MAX c < 2 ^ 31"
    and "uint val \<le> SEM_VALUE_MAX c"
    and "2 ^ 32 < strlen name" and "strlen name \<le> 2 ^ 32 + 504"
  shows "504 < strlen name \<and>
         \<not> returns_errno (sem_open c w name oflag mode val) NULL EINVAL \<and>
         sem_open c w name oflag mode val =
           sem_open c w (take (strlen name - 2 ^ 32) name) oflag mode val"
proof -
  define k where "k = strlen name - 2 ^ 32"
  define short where "short = take k name"
  have k: "1 \<le> k" "k \<le> 504" "k \<le> strlen name"
    using assms(4,5) by (simp_all add: k_def)
  have v: "\<not> word_of_int (SEM_VALUE_MAX c) < val"
    using assms(1-3) by (rule value_accepted)
  have len: "sint (word_of_nat (strlen name) :: 32 word) = int k"
    unfolding k_def using assms(4,5) by (intro len_wraps) simp_all
  have buf: "fill_buffer buffer_junk name (int k) =
      Some (global_prefix @ short @ NUL # drop (k + 8) buffer_junk)"
    unfolding short_def using k by (intro fill_buffer_prefix) (simp_all add: buffer_junk_length)
  have s: "strlen short = k" "cstr short = short"
    unfolding short_def using take_within_cstr [OF k(3)] by simp_all
  then have nn: "native_name short = global_prefix @ short"
    by (simp add: native_name_def)
  have c2: "cstr (native_name short @ NUL # d) = native_name short" for d
    by (rule cstr_terminated) (rule NUL_notin_native_name)
  then have c1: "cstr (global_prefix @ short @ NUL # d) = native_name short" for d
    using c2 [of d] unfolding nn by simp
  have ks: "1 \<le> strlen short" "strlen short \<le> 504"
    using k s by simp_all
  have lens: "sint (word_of_nat (strlen short) :: 32 word) = int k"
    using sem_open_buffer(1) [OF ks] s by simp
  have bufs: "fill_buffer buffer_junk short (int k) =
      Some (native_name short @ NUL # drop (k + 8) buffer_junk)"
    using sem_open_buffer(2) [OF ks] s by simp
  have "sem_open c w name oflag mode val = sem_open c w short oflag mode val"
    unfolding sem_open_def len lens Let_def buf bufs
    by (simp add: c1 c2 cong: if_cong prod.case_cong)
  moreover have "\<not> returns_errno (sem_open c w short oflag mode val) NULL EINVAL"
    using ks v by (rule sem_open_accepted_not_EINVAL)
  ultimately show ?thesis
    using assms(4) by (simp add: short_def k_def)
qed

lemma strlen_a: "strlen ''a'' = 1"
  by (simp add: strlen_def cstr_def NUL_def)

text \<open>A name of \<open>2^32 + 1\<close> bytes creates the semaphore named by its first byte.\<close>

theorem sem_open_name_length_wraps_witness:
  "strlen (replicate 4294967297 (CHR ''a'')) = 4294967297 \<and>
   sem_open hc0 w_fresh (replicate 4294967297 (CHR ''a'')) O_CREAT 0 0 =
     sem_open hc0 w_fresh ''a'' O_CREAT 0 0 \<and>
   \<not> returns_errno (sem_open hc0 w_fresh (replicate 4294967297 (CHR ''a'')) O_CREAT 0 0)
       NULL EINVAL \<and>
   (\<exists>w'. sem_open hc0 w_fresh ''a'' O_CREAT 0 0 = Returns (w', 4096) \<and>
      names w' (native_name ''a'') = Some 1)"
proof -
  let ?giant = "replicate 4294967297 (CHR ''a'')"
  have a: "CHR ''a'' \<noteq> NUL"
    by (simp add: NUL_def)
  have l: "strlen ?giant = 4294967297"
    using a by (rule strlen_replicate)
  have t: "take (strlen ?giant - 2 ^ 32) ?giant = ''a''"
    by (simp add: l)
  have c: "0 \<le> SEM_VALUE_MAX hc0" "SEM_VALUE_MAX hc0 < 2 ^ 31"
    "uint (0 :: 32 word) \<le> SEM_VALUE_MAX hc0"
    "2 ^ 32 < strlen ?giant" "strlen ?giant \<le> 2 ^ 32 + 504"
    by (simp_all add: hc0_simps l)
  note w = sem_open_name_length_wraps [OF c, where w = w_fresh and oflag = O_CREAT and mode = 0]
  have b: "sint (word_of_nat (strlen ''a'') :: 32 word) = 1"
    "fill_buffer buffer_junk ''a'' 1 = Some (native_name ''a'' @ NUL # drop 9 buffer_junk)"
    "cstr (native_name ''a'' @ NUL # drop 9 buffer_junk) = native_name ''a''"
    using sem_open_buffer [of "''a''"] by (simp_all add: strlen_a)
  have "\<exists>w'. sem_open hc0 w_fresh ''a'' O_CREAT 0 0 = Returns (w', 4096) \<and>
      names w' (native_name ''a'') = Some 1"
    by (simp add: sem_open_def b hc0_simps w_fresh_def
      calloc_def OpenSemaphoreA_def CreateSemaphore_def new_handle_def GetLastError_def
      store_handle_def Let_def platform_defs)
  with w show ?thesis
    unfolding t by (auto simp add: l)
qed

section \<open>Failure paths release what they acquired\<close>





end
